theory Spec2Isabelle
  imports Complex_Main
begin

section \<open>JavaScript values\<close>

text \<open>
  The two stores of the web client (\<^verbatim>\<open>web/src/stores/chat.js\<close> and
  \<^verbatim>\<open>web/src/stores/config.js\<close>) work on JavaScript values: the parsed body of an
  HTTP response, the configuration object, the text typed by the user.

  A JavaScript string is a sequence of UTF-16 code units. The texts of the stores hold
  characters outside Latin-1 and \<^verbatim>\<open>trim\<close> removes white space outside Latin-1, so a
  string is a list of code units, each a natural number (below 65536 in the program).
\<close>

type_synonym jsstring = "nat list"

definition ustr :: "string \<Rightarrow> jsstring" where
  "ustr s = map of_char s"

text \<open>
  A number is an IEEE double. The stores only test numbers for truthiness and compare one
  with zero, so a finite double is carried as the rational it denotes (both zeros are
  \<open>Fin 0\<close>).
\<close>

datatype jsnum = Fin rat | PosInf | NegInf | NaN

datatype jsval =
    JUndefined
  | JNull
  | JBool bool
  | JNum jsnum
  | JStr jsstring
  | JArr "jsval list"
  | JObj "(jsstring \<times> jsval) list"

text \<open>
  \<open>JObj kvs\<close> lists the own properties of a plain object in the order they were written;
  where a key is written twice the later value stands, as in \<^verbatim>\<open>JSON.parse\<close> and in an
  object literal with spreads.
\<close>

definition ownLookup :: "(jsstring \<times> jsval) list \<Rightarrow> jsstring \<Rightarrow> jsval option" where
  "ownLookup kvs k = map_of (rev kvs) k"

text \<open>Decimal digits of a number, as a template literal or a property key prints it.\<close>

fun decimal :: "nat \<Rightarrow> jsstring" where
  "decimal n = (if n < 10 then [48 + n] else decimal (n div 10) @ [48 + n mod 10])"

declare decimal.simps [simp del]

text \<open>ToBoolean.\<close>

fun truthy :: "jsval \<Rightarrow> bool" where
  "truthy JUndefined = False"
| "truthy JNull = False"
| "truthy (JBool b) = b"
| "truthy (JNum (Fin r)) = (r \<noteq> 0)"
| "truthy (JNum PosInf) = True"
| "truthy (JNum NegInf) = True"
| "truthy (JNum NaN) = False"
| "truthy (JStr s) = (s \<noteq> [])"
| "truthy (JArr xs) = True"
| "truthy (JObj kvs) = True"

text \<open>
  What a script can throw or be rejected with. \<open>TypeError b p\<close> is the error of reading
  property \<open>p\<close> of \<open>b\<close>, for \<open>b\<close> null or undefined. \<open>RequestError m\<close> is the error a
  rejected \<^verbatim>\<open>axios\<close> call carries, with its \<^verbatim>\<open>message\<close>: a status outside 2xx
  (\<^verbatim>\<open>Request failed with status code 401\<close>), a transport failure
  (\<^verbatim>\<open>Network Error\<close>) or the timeout (\<^verbatim>\<open>timeout of 30000ms exceeded\<close>).
\<close>

datatype jserror = TypeError jsval jsstring | RequestError jsstring

text \<open>
  Two things the language leaves to the engine are parameters of the model: the text of
  a \<^verbatim>\<open>TypeError\<close>, and the comparison \<^verbatim>\<open>v > 0\<close> for \<open>v\<close> a string, an array or an
  object (ToPrimitive and StringToNumber, which may throw).
\<close>

record engine =
  typeErrorText :: "jsval \<Rightarrow> jsstring \<Rightarrow> jsstring"
  gtZeroObj :: "jsval \<Rightarrow> jserror + bool"

definition errorMessage :: "engine \<Rightarrow> jserror \<Rightarrow> jsstring" where
  "errorMessage eng e =
     (case e of TypeError b p \<Rightarrow> typeErrorText eng b p | RequestError m \<Rightarrow> m)"

definition thenE :: "'e + 'a \<Rightarrow> ('a \<Rightarrow> 'e + 'b) \<Rightarrow> 'e + 'b" where
  "thenE r f = (case r of Inl e \<Rightarrow> Inl e | Inr x \<Rightarrow> f x)"

text \<open>
  Reading a property, \<^verbatim>\<open>v.p\<close> or \<^verbatim>\<open>v[i]\<close> with the index printed in decimal. The
  stores read \<^verbatim>\<open>choices\<close>, \<^verbatim>\<open>length\<close>, \<^verbatim>\<open>0\<close>, \<^verbatim>\<open>message\<close>, \<^verbatim>\<open>content\<close> and the
  configuration fields; none of them is inherited from a prototype, except \<^verbatim>\<open>length\<close>
  of a string or array.
\<close>

fun getProp :: "jsval \<Rightarrow> jsstring \<Rightarrow> jserror + jsval" where
  "getProp JUndefined p = Inl (TypeError JUndefined p)"
| "getProp JNull p = Inl (TypeError JNull p)"
| "getProp (JBool b) p = Inr JUndefined"
| "getProp (JNum n) p = Inr JUndefined"
| "getProp (JStr s) p =
     (if p = ustr ''length'' then Inr (JNum (Fin (of_nat (length s))))
      else case map_of (zip (map decimal [0..<length s]) s) p of
             Some c \<Rightarrow> Inr (JStr [c])
           | None \<Rightarrow> Inr JUndefined)"
| "getProp (JArr xs) p =
     (if p = ustr ''length'' then Inr (JNum (Fin (of_nat (length xs))))
      else case map_of (zip (map decimal [0..<length xs]) xs) p of
             Some x \<Rightarrow> Inr x
           | None \<Rightarrow> Inr JUndefined)"
| "getProp (JObj kvs) p =
     (case ownLookup kvs p of Some x \<Rightarrow> Inr x | None \<Rightarrow> Inr JUndefined)"

text \<open>The comparison \<^verbatim>\<open>v > 0\<close>: ToNumber of \<open>v\<close>, then the comparison of doubles.\<close>

fun gtZero :: "engine \<Rightarrow> jsval \<Rightarrow> jserror + bool" where
  "gtZero eng JUndefined = Inr False"
| "gtZero eng JNull = Inr False"
| "gtZero eng (JBool b) = Inr b"
| "gtZero eng (JNum (Fin r)) = Inr (0 < r)"
| "gtZero eng (JNum PosInf) = Inr True"
| "gtZero eng (JNum NegInf) = Inr False"
| "gtZero eng (JNum NaN) = Inr False"
| "gtZero eng (JStr s) = gtZeroObj eng (JStr s)"
| "gtZero eng (JArr xs) = gtZeroObj eng (JArr xs)"
| "gtZero eng (JObj kvs) = gtZeroObj eng (JObj kvs)"

section \<open>String.prototype.trim\<close>

text \<open>
  The code units \<^verbatim>\<open>trim\<close> removes: the WhiteSpace and LineTerminator productions of
  ECMAScript (tab, line feed, vertical tab, form feed, carriage return, space, no-break
  space, U+1680, U+2000 to U+200A, U+2028, U+2029, U+202F, U+205F, U+3000, U+FEFF).
\<close>

definition isWhiteSpace :: "nat \<Rightarrow> bool" where
  "isWhiteSpace c =
     (c \<in> {9, 10, 11, 12, 13, 32, 160, 5760, 8232, 8233, 8239, 8287, 12288, 65279}
      \<or> (8192 \<le> c \<and> c \<le> 8202))"

definition trim :: "jsstring \<Rightarrow> jsstring" where
  "trim s = rev (dropWhile isWhiteSpace (rev (dropWhile isWhiteSpace s)))"

section \<open>The chat store\<close>

datatype role = User | Assistant

record message =
  msg_id :: jsstring
  msg_role :: role
  msg_content :: jsval
  msg_timestamp :: jsstring

text \<open>The three refs of \<^verbatim>\<open>useChatStore\<close>.\<close>

record chat_store =
  chatHistory :: "message list"
  isLoading :: bool
  messageCounter :: nat

definition initialChat :: chat_store where
  "initialChat = \<lparr>chatHistory = [], isLoading = False, messageCounter = 0\<rparr>"

text \<open>The body posted to \<^verbatim>\<open>/api/chat\<close>.\<close>

record chat_request =
  req_api_url :: jsval
  req_api_key :: jsval
  req_model :: jsval
  req_messages :: "(role \<times> jsval) list"
  req_temperature :: jsval
  req_max_tokens :: jsval

text \<open>
  \<^verbatim>\<open>{ id: `msg_${messageCounter.value++}`, role, content, timestamp }\<close> followed by
  \<^verbatim>\<open>chatHistory.value.push(...)\<close>: the id takes the counter before the increment, and
  the message goes to the end of the array the ref holds at that moment. The time stamp
  \<open>now\<close> is the reading of the clock, \<^verbatim>\<open>new Date().toISOString()\<close>.
\<close>

definition pushMessage :: "role \<Rightarrow> jsval \<Rightarrow> jsstring \<Rightarrow> chat_store \<Rightarrow> chat_store" where
  "pushMessage r c now st =
     st\<lparr>chatHistory := chatHistory st @
           [\<lparr>msg_id = ustr ''msg_'' @ decimal (messageCounter st), msg_role = r,
             msg_content = c, msg_timestamp = now\<rparr>],
        messageCounter := messageCounter st + 1\<rparr>"

text \<open>Lines 33 to 46: the argument of \<^verbatim>\<open>axios.post\<close>, evaluated before the call.\<close>

definition buildRequest :: "jsval \<Rightarrow> message list \<Rightarrow> jserror + chat_request" where
  "buildRequest config hist =
     thenE (getProp config (ustr ''api_url'')) (\<lambda>url.
     thenE (getProp config (ustr ''api_key'')) (\<lambda>key.
     thenE (getProp config (ustr ''model'')) (\<lambda>model.
     thenE (getProp config (ustr ''temperature'')) (\<lambda>temp.
     thenE (getProp config (ustr ''max_tokens'')) (\<lambda>maxt.
       Inr \<lparr>req_api_url = url, req_api_key = key, req_model = model,
            req_messages = map (\<lambda>msg. (msg_role msg, msg_content msg)) hist,
            req_temperature = temp, req_max_tokens = maxt\<rparr>)))))"

text \<open>
  Lines 49 to 59: the content taken from the response data.
  \<^verbatim>\<open>
      let aiContent = ''
      if (aiResponse.choices && aiResponse.choices.length > 0) {
        aiContent = aiResponse.choices[0].message.content
      } else if (aiResponse.content) {
        aiContent = aiResponse.content
      }
  \<close>
  \<open>Inl\<close> is an exception thrown on the way.
\<close>

definition extractContent :: "engine \<Rightarrow> jsval \<Rightarrow> jserror + jsval" where
  "extractContent eng aiResponse =
     thenE (getProp aiResponse (ustr ''choices'')) (\<lambda>choices.
     thenE (if truthy choices
            then thenE (getProp choices (ustr ''length'')) (gtZero eng)
            else Inr False) (\<lambda>openai.
       if openai then
         thenE (getProp choices (decimal 0)) (\<lambda>first.
         thenE (getProp first (ustr ''message'')) (\<lambda>m.
           getProp m (ustr ''content'')))
       else
         thenE (getProp aiResponse (ustr ''content'')) (\<lambda>c.
           if truthy c then Inr c else Inr (JStr []))))"

text \<open>The \<^verbatim>\<open>catch\<close> block (lines 71 to 83) and the \<^verbatim>\<open>finally\<close> block (line 85).\<close>

definition errorPrefix :: jsstring where
  "errorPrefix = ustr ''API'' @ [35843, 29992, 22833, 36133] @ ustr '': ''"

definition catchBlock :: "engine \<Rightarrow> jserror \<Rightarrow> jsstring \<Rightarrow> chat_store \<Rightarrow> chat_store" where
  "catchBlock eng e now st =
     pushMessage Assistant (JStr (errorPrefix @ errorMessage eng e)) now st"

definition finallyBlock :: "chat_store \<Rightarrow> chat_store" where
  "finallyBlock st = st\<lparr>isLoading := False\<rparr>"

text \<open>
  \<^verbatim>\<open>sendMessage\<close> is an async function with one \<^verbatim>\<open>await\<close>. It runs in two steps, and
  other actions of the store may run between them.

  \<open>sendMessage_begin\<close> is the run up to the \<^verbatim>\<open>await\<close>. It ends either with the promise
  settled (\<open>Settled st v\<close>: the store and the value the promise is fulfilled with) or
  suspended on the request (\<open>Awaiting st req\<close>). \<open>now\<close> is the clock read for the user
  message and \<open>now'\<close> the clock the \<^verbatim>\<open>catch\<close> block reads if the request cannot be
  built.
\<close>

datatype send_step = Settled chat_store jsval | Awaiting chat_store chat_request

definition sendMessage_begin ::
  "engine \<Rightarrow> jsval \<Rightarrow> jsstring \<Rightarrow> jsstring \<Rightarrow> jsstring \<Rightarrow> chat_store \<Rightarrow> send_step" where
  "sendMessage_begin eng config content now now' st =
     (if trim content = [] \<or> isLoading st then Settled st JUndefined
      else
        let st1 = (pushMessage User (JStr (trim content)) now st)\<lparr>isLoading := True\<rparr>
        in case buildRequest config (chatHistory st1) of
             Inr req \<Rightarrow> Awaiting st1 req
           | Inl e \<Rightarrow> Settled (finallyBlock (catchBlock eng e now' st1)) JUndefined)"

text \<open>
  The outcome of the awaited call: resolved with \<^verbatim>\<open>response.data\<close>, or rejected.
\<close>

datatype outcome = Resolved jsval | Rejected jsstring

text \<open>
  \<open>sendMessage_resume\<close> is the run after the \<^verbatim>\<open>await\<close>, on the store as it is when the
  call settles. It gives the store and the value the promise is fulfilled with.
\<close>

definition sendMessage_resume ::
  "engine \<Rightarrow> outcome \<Rightarrow> jsstring \<Rightarrow> chat_store \<Rightarrow> chat_store \<times> jsval" where
  "sendMessage_resume eng out now st =
     (case (case out of
              Rejected m \<Rightarrow> Inl (RequestError m)
            | Resolved aiResponse \<Rightarrow> extractContent eng aiResponse) of
        Inr aiContent \<Rightarrow> (finallyBlock (pushMessage Assistant aiContent now st), JUndefined)
      | Inl e \<Rightarrow> (finallyBlock (catchBlock eng e now st), JUndefined))"

text \<open>Lines 90 to 97.\<close>

definition clearHistory :: "chat_store \<Rightarrow> chat_store" where
  "clearHistory st = st\<lparr>chatHistory := []\<rparr>"

definition newConversation :: "chat_store \<Rightarrow> chat_store" where
  "newConversation st = clearHistory st"

text \<open>
  A run of \<^verbatim>\<open>sendMessage\<close> with no other action of the store between the request and
  its outcome. \<open>now'\<close> is the clock read when the reply (or the error) is appended.
\<close>

definition sendMessage ::
  "engine \<Rightarrow> jsval \<Rightarrow> jsstring \<Rightarrow> jsstring \<Rightarrow> outcome \<Rightarrow> jsstring \<Rightarrow> chat_store
     \<Rightarrow> chat_store \<times> jsval" where
  "sendMessage eng config content now out now' st =
     (case sendMessage_begin eng config content now now' st of
        Settled st' v \<Rightarrow> (st', v)
      | Awaiting st1 req \<Rightarrow> sendMessage_resume eng out now' st1)"

definition storeOf :: "send_step \<Rightarrow> chat_store" where
  "storeOf step = (case step of Settled st v \<Rightarrow> st | Awaiting st req \<Rightarrow> st)"

text \<open>
  The content of the one message the second step of \<^verbatim>\<open>sendMessage\<close> appends: the
  reply taken from the response, or the text of the \<^verbatim>\<open>catch\<close> block.
\<close>

definition replyContent :: "engine \<Rightarrow> outcome \<Rightarrow> jsval" where
  "replyContent eng out =
     (case out of
        Rejected m \<Rightarrow> JStr (errorPrefix @ m)
      | Resolved aiResponse \<Rightarrow>
          (case extractContent eng aiResponse of
             Inr aiContent \<Rightarrow> aiContent
           | Inl e \<Rightarrow> JStr (errorPrefix @ errorMessage eng e)))"

section \<open>The configuration store\<close>

text \<open>The four refs of \<^verbatim>\<open>useConfigStore\<close>; \<open>error\<close> is null or a string.\<close>

record config_store =
  config :: jsval
  models :: jsval
  loading :: bool
  error :: jsval

definition defaultConfig :: jsval where
  "defaultConfig =
     JObj [(ustr ''api_url'', JStr []), (ustr ''api_key'', JStr []), (ustr ''model'', JStr []),
           (ustr ''temperature'', JNum (Fin (7 / 10))), (ustr ''max_tokens'', JNum (Fin 1000))]"

definition initialConfig :: config_store where
  "initialConfig = \<lparr>config = defaultConfig, models = JObj [], loading = False, error = JNull\<rparr>"

text \<open>
  The own enumerable properties an object spread \<^verbatim>\<open>...v\<close> copies: those of an object,
  the elements of an array and the code units of a string under their indices, nothing
  for the other values.
\<close>

fun spread :: "jsval \<Rightarrow> (jsstring \<times> jsval) list" where
  "spread (JObj kvs) = kvs"
| "spread (JArr xs) = zip (map decimal [0..<length xs]) xs"
| "spread (JStr s) = zip (map decimal [0..<length s]) (map (\<lambda>c. JStr [c]) s)"
| "spread v = []"

definition ownProperty :: "jsval \<Rightarrow> jsstring \<Rightarrow> jsval option" where
  "ownProperty v k = ownLookup (spread v) k"

text \<open>
  \<^verbatim>\<open>saveConfig\<close> (lines 43 to 63) up to its \<^verbatim>\<open>await\<close>: the store, and the body posted
  to \<^verbatim>\<open>/api/config\<close>.
\<close>

definition saveConfig_begin :: "jsval \<Rightarrow> config_store \<Rightarrow> config_store \<times> jsval" where
  "saveConfig_begin newConfig st =
     (let updatedConfig = JObj (spread (config st) @ spread newConfig)
      in (st\<lparr>loading := True, error := JNull, config := updatedConfig\<rparr>,
          JObj [(ustr ''config'', updatedConfig)]))"

definition savePrefix :: jsstring where
  "savePrefix = [20445, 23384, 37197, 32622, 22833, 36133] @ ustr '': ''"

text \<open>
  \<^verbatim>\<open>saveConfig\<close> after the \<^verbatim>\<open>await\<close>: the store and the value returned, \<^verbatim>\<open>true\<close> or
  \<^verbatim>\<open>false\<close>.
\<close>

definition saveConfig_resume :: "outcome \<Rightarrow> config_store \<Rightarrow> config_store \<times> jsval" where
  "saveConfig_resume out st =
     (case out of
        Resolved response \<Rightarrow> (st\<lparr>loading := False\<rparr>, JBool True)
      | Rejected m \<Rightarrow> (st\<lparr>error := JStr (savePrefix @ m), loading := False\<rparr>, JBool False))"

definition saveConfig :: "jsval \<Rightarrow> outcome \<Rightarrow> config_store \<Rightarrow> config_store \<times> jsval" where
  "saveConfig newConfig out st = saveConfig_resume out (fst (saveConfig_begin newConfig st))"

section \<open>Values used in the examples\<close>

text \<open>
  An engine for the examples. None of them reaches the engine's comparison, and none
  throws a \<^verbatim>\<open>TypeError\<close>.
\<close>

definition sampleEngine :: engine where
  "sampleEngine =
     \<lparr>typeErrorText = (\<lambda>b p. ustr ''Cannot read properties of undefined''),
      gtZeroObj = (\<lambda>v. Inr False)\<rparr>"

text \<open>\<^verbatim>\<open>{"choices": [{"message": {"content": t}}]}\<close>\<close>

definition openaiBody :: "jsstring \<Rightarrow> jsval" where
  "openaiBody t =
     JObj [(ustr ''choices'',
            JArr [JObj [(ustr ''message'', JObj [(ustr ''content'', JStr t)])]])]"

text \<open>\<^verbatim>\<open>{"status": s, "msg": m, "body": b}\<close>\<close>

definition iflowEnvelope :: "jsval \<Rightarrow> jsval \<Rightarrow> jsval \<Rightarrow> jsval" where
  "iflowEnvelope s m b = JObj [(ustr ''status'', s), (ustr ''msg'', m), (ustr ''body'', b)]"

text \<open>The store while the request of a first message \<^verbatim>\<open>Hello\<close> is in flight.\<close>

definition helloSent :: chat_store where
  "helloSent =
     storeOf (sendMessage_begin sampleEngine defaultConfig (ustr ''Hello'') (ustr ''t0'')
       (ustr ''t1'') initialChat)"

text \<open>The store after that request has failed with \<^verbatim>\<open>Network Error\<close>.\<close>

definition afterFailure :: chat_store where
  "afterFailure =
     fst (sendMessage_resume sampleEngine (Rejected (ustr ''Network Error'')) (ustr ''t1'')
       helloSent)"

text \<open>A body that has both the simplified and the OpenAI-compatible shape.\<close>

definition bothShapes :: jsval where
  "bothShapes =
     JObj [(ustr ''content'', JStr (ustr ''from content'')),
           (ustr ''choices'',
            JArr [JObj [(ustr ''message'', JObj [(ustr ''content'', JStr (ustr ''from choices''))])]])]"

text \<open>
  A record with an empty \<^verbatim>\<open>api_url\<close>, a temperature above 2 and no tokens, and a
  configuration that differs from the default one in every field.
\<close>

definition badConfig :: jsval where
  "badConfig =
     JObj [(ustr ''api_url'', JStr []), (ustr ''temperature'', JNum (Fin 5)),
           (ustr ''max_tokens'', JNum (Fin 0))]"

definition tunedConfig :: jsval where
  "tunedConfig =
     JObj [(ustr ''api_url'', JStr (ustr ''https://apis.iflow.cn/v1/chat/completions'')),
           (ustr ''api_key'', JStr (ustr ''sk-1'')), (ustr ''model'', JStr (ustr ''deepseek-v3.1'')),
           (ustr ''temperature'', JNum (Fin (2 / 10))), (ustr ''max_tokens'', JNum (Fin 256))]"

text \<open>
  The specification speaks of a result \<^verbatim>\<open>Failure{kind, detail, rawSnippet}\<close>. Read as a
  value a caller could receive, it is an object whose \<^verbatim>\<open>kind\<close> property is the given
  string. The stores build no such value; the predicate only states what a returned
  value would have to be.
\<close>

definition spec_isFailure :: "jsstring \<Rightarrow> jsval \<Rightarrow> bool" where
  "spec_isFailure kind v = (getProp v (ustr ''kind'') = Inr (JStr kind))"

section \<open>Basic facts\<close>

lemma decimal_0: "decimal 0 = [48]"
  by (simp add: decimal.simps)

lemma getProp_first: "getProp (JArr (x # xs)) (decimal 0) = Inr x"
  by (simp add: decimal_0 ustr_def upt_conv_Cons del: upt_Suc)

lemma ownLookup_append:
  "ownLookup (xs @ ys) k = (case ownLookup ys k of Some v \<Rightarrow> Some v | None \<Rightarrow> ownLookup xs k)"
  by (simp add: ownLookup_def map_add_def split: option.split)

lemma isLoading_finallyBlock: "isLoading (finallyBlock st) = False"
  by (simp add: finallyBlock_def)

lemma chatHistory_finallyBlock: "chatHistory (finallyBlock st) = chatHistory st"
  by (simp add: finallyBlock_def)

lemma chatHistory_pushMessage:
  "chatHistory (pushMessage r c now st) =
     chatHistory st @
       [\<lparr>msg_id = ustr ''msg_'' @ decimal (messageCounter st), msg_role = r,
         msg_content = c, msg_timestamp = now\<rparr>]"
  by (simp add: pushMessage_def)

lemma helloSent_eq:
  "helloSent =
     \<lparr>chatHistory = [\<lparr>msg_id = ustr ''msg_0'', msg_role = User,
                       msg_content = JStr (ustr ''Hello''), msg_timestamp = ustr ''t0''\<rparr>],
      isLoading = True, messageCounter = 1\<rparr>"
  by (simp add: helloSent_def storeOf_def sendMessage_begin_def trim_def isWhiteSpace_def
      pushMessage_def initialChat_def buildRequest_def thenE_def defaultConfig_def
      ownLookup_def decimal_0 ustr_def)

lemma helloSent_loading: "isLoading helloSent"
  by (simp add: helloSent_eq)

subsection \<open>trim\<close>

lemma rev_dropWhile_takeWhile:
  "rev (dropWhile P (rev xs)) @ rev (takeWhile P (rev xs)) = xs"
proof -
  have "rev (takeWhile P (rev xs) @ dropWhile P (rev xs)) = xs"
    by simp
  then show ?thesis
    by (simp only: rev_append)
qed

lemma dropWhile_trim:
  "dropWhile isWhiteSpace s =
     trim s @ rev (takeWhile isWhiteSpace (rev (dropWhile isWhiteSpace s)))"
  unfolding trim_def by (rule rev_dropWhile_takeWhile [symmetric])

lemma trim_split:
  "\<exists>pre post. s = pre @ trim s @ post \<and> (\<forall>c\<in>set pre. isWhiteSpace c) \<and>
     (\<forall>c\<in>set post. isWhiteSpace c)"
proof -
  let ?pre = "takeWhile isWhiteSpace s"
  let ?post = "rev (takeWhile isWhiteSpace (rev (dropWhile isWhiteSpace s)))"
  have "s = ?pre @ dropWhile isWhiteSpace s" by simp
  also have "dropWhile isWhiteSpace s = trim s @ ?post" by (rule dropWhile_trim)
  finally have "s = ?pre @ trim s @ ?post" .
  moreover have "\<forall>c\<in>set ?pre. isWhiteSpace c"
    by (auto dest: set_takeWhileD)
  moreover have "\<forall>c\<in>set ?post. isWhiteSpace c"
    by (auto dest: set_takeWhileD)
  ultimately show ?thesis by blast
qed

lemma trim_ends:
  assumes "trim s \<noteq> []"
  shows "\<not> isWhiteSpace (hd (trim s)) \<and> \<not> isWhiteSpace (last (trim s))"
proof -
  let ?a = "dropWhile isWhiteSpace s"
  let ?b = "dropWhile isWhiteSpace (rev ?a)"
  from assms have b: "?b \<noteq> []" by (simp add: trim_def)
  then have "\<not> isWhiteSpace (hd ?b)" by (rule hd_dropWhile)
  moreover have "last (trim s) = hd ?b" using b by (simp add: trim_def last_rev)
  ultimately have 1: "\<not> isWhiteSpace (last (trim s))" by simp
  have a: "?a = trim s @ rev (takeWhile isWhiteSpace (rev ?a))" by (rule dropWhile_trim)
  from assms have "?a \<noteq> []" by (auto simp: trim_def dest: set_dropWhileD)
  then have "\<not> isWhiteSpace (hd ?a)" by (rule hd_dropWhile)
  moreover have "hd ?a = hd (trim s)" using a assms by (metis hd_append2)
  ultimately show ?thesis using 1 by simp
qed

subsection \<open>The two steps of sendMessage\<close>

lemma buildRequest_defined:
  assumes "cfg \<noteq> JUndefined" "cfg \<noteq> JNull"
  shows "\<exists>req. buildRequest cfg hist = Inr req \<and>
           req_messages req = map (\<lambda>msg. (msg_role msg, msg_content msg)) hist"
proof -
  have "\<exists>x. getProp cfg p = Inr x" for p
    using assms by (cases cfg) (auto split: option.split)
  then obtain a b c d e where
    "getProp cfg (ustr ''api_url'') = Inr a" "getProp cfg (ustr ''api_key'') = Inr b"
    "getProp cfg (ustr ''model'') = Inr c" "getProp cfg (ustr ''temperature'') = Inr d"
    "getProp cfg (ustr ''max_tokens'') = Inr e"
    by metis
  then show ?thesis by (simp add: buildRequest_def thenE_def)
qed

lemma buildRequest_messages:
  "buildRequest cfg hist = Inr req \<Longrightarrow>
     req_messages req = map (\<lambda>msg. (msg_role msg, msg_content msg)) hist"
  by (auto simp: buildRequest_def thenE_def split: sum.splits)

lemma begin_accepted:
  assumes "trim content \<noteq> []" "\<not> isLoading st"
  shows "\<exists>rest. chatHistory (storeOf (sendMessage_begin eng cfg content now now' st)) =
           chatHistory st @
             \<lparr>msg_id = ustr ''msg_'' @ decimal (messageCounter st), msg_role = User,
               msg_content = JStr (trim content), msg_timestamp = now\<rparr> # rest"
  using assms
  by (simp add: sendMessage_begin_def storeOf_def Let_def catchBlock_def finallyBlock_def
      pushMessage_def split: sum.split)

lemma begin_accepted_exact:
  assumes "trim content \<noteq> []" "\<not> isLoading st"
  shows "\<exists>rest. chatHistory (storeOf (sendMessage_begin eng cfg content now now' st)) =
           chatHistory st @
             \<lparr>msg_id = ustr ''msg_'' @ decimal (messageCounter st), msg_role = User,
               msg_content = JStr (trim content), msg_timestamp = now\<rparr> # rest
           \<and> (cfg \<noteq> JUndefined \<longrightarrow> cfg \<noteq> JNull \<longrightarrow> rest = [])"
proof (cases "cfg \<noteq> JUndefined \<and> cfg \<noteq> JNull")
  case True
  then obtain req where
    "buildRequest cfg (chatHistory (pushMessage User (JStr (trim content)) now st)) = Inr req"
    using buildRequest_defined by blast
  with assms show ?thesis
    by (simp add: sendMessage_begin_def storeOf_def Let_def pushMessage_def)
next
  case False
  with begin_accepted [OF assms, of eng cfg now now'] show ?thesis
    by blast
qed

lemma resume_idle: "isLoading (fst (sendMessage_resume eng out now st)) = False"
  by (simp add: sendMessage_resume_def isLoading_finallyBlock split: sum.split outcome.split)

lemma begin_settled_idle:
  "\<not> isLoading st \<Longrightarrow> sendMessage_begin eng cfg content t t' st = Settled st' v \<Longrightarrow>
     \<not> isLoading st'"
  by (auto simp: sendMessage_begin_def Let_def isLoading_finallyBlock
      split: if_splits sum.splits)

lemma resume_value: "snd (sendMessage_resume eng out now st) = JUndefined"
  by (simp add: sendMessage_resume_def split: sum.split outcome.split)

lemma begin_value:
  "sendMessage_begin eng cfg content t t' st = Settled st' v \<Longrightarrow> v = JUndefined"
  by (auto simp: sendMessage_begin_def Let_def split: if_splits sum.splits)

lemma sendMessage_value: "snd (sendMessage eng cfg content t out t' st) = JUndefined"
  by (auto simp: sendMessage_def resume_value dest: begin_value split: send_step.split)

lemma resume_eq:
  "sendMessage_resume eng out now st =
     (finallyBlock (pushMessage Assistant (replyContent eng out) now st), JUndefined)"
  by (simp add: sendMessage_resume_def replyContent_def catchBlock_def errorMessage_def
      split: outcome.split sum.split)

lemma chatHistory_resume:
  "chatHistory (fst (sendMessage_resume eng out now st)) =
     chatHistory st @
       [\<lparr>msg_id = ustr ''msg_'' @ decimal (messageCounter st), msg_role = Assistant,
         msg_content = replyContent eng out, msg_timestamp = now\<rparr>]"
  by (simp add: resume_eq chatHistory_finallyBlock chatHistory_pushMessage)

lemma begin_awaiting:
  assumes "sendMessage_begin eng cfg content t t' st = Awaiting st1 req"
  shows "req_messages req =
           map (\<lambda>m. (msg_role m, msg_content m)) (chatHistory st) @ [(User, JStr (trim content))]"
    and "st1 = (pushMessage User (JStr (trim content)) t st)\<lparr>isLoading := True\<rparr>"
    and "trim content \<noteq> []" and "\<not> isLoading st"
  using assms
  by (auto simp: sendMessage_begin_def Let_def chatHistory_pushMessage
      dest!: buildRequest_messages split: if_splits sum.splits)

lemma begin_not_ignored:
  assumes "trim content \<noteq> []" "\<not> isLoading st"
  shows "sendMessage_begin eng cfg content t t' st \<noteq> Settled st JUndefined"
proof
  assume "sendMessage_begin eng cfg content t t' st = Settled st JUndefined"
  then have "storeOf (sendMessage_begin eng cfg content t t' st) = st"
    by (simp add: storeOf_def)
  with begin_accepted [OF assms, of eng cfg t t'] show False
    by auto
qed

lemma trim_again: "trim (ustr ''again'') = ustr ''again''"
  by (simp add: trim_def ustr_def isWhiteSpace_def)

lemma trim_hello: "trim ([32, 12288] @ ustr ''Hello'' @ [10, 9]) = ustr ''Hello''"
  by (simp add: trim_def ustr_def isWhiteSpace_def)

lemma ustr_nonempty: "ustr (c # cs) \<noteq> []"
  by (simp add: ustr_def)

lemma afterFailure_eq:
  "afterFailure =
     \<lparr>chatHistory =
        [\<lparr>msg_id = ustr ''msg_0'', msg_role = User, msg_content = JStr (ustr ''Hello''),
          msg_timestamp = ustr ''t0''\<rparr>,
         \<lparr>msg_id = ustr ''msg_1'', msg_role = Assistant,
          msg_content = JStr (errorPrefix @ ustr ''Network Error''),
          msg_timestamp = ustr ''t1''\<rparr>],
      isLoading = False, messageCounter = 2\<rparr>"
  by (simp add: afterFailure_def resume_eq replyContent_def finallyBlock_def pushMessage_def
      helloSent_eq decimal.simps ustr_def)

lemma afterFailure_next:
  "sendMessage_begin sampleEngine defaultConfig (ustr ''again'') (ustr ''t2'') (ustr ''t3'')
     afterFailure =
   Awaiting
     \<lparr>chatHistory =
        [\<lparr>msg_id = ustr ''msg_0'', msg_role = User, msg_content = JStr (ustr ''Hello''),
          msg_timestamp = ustr ''t0''\<rparr>,
         \<lparr>msg_id = ustr ''msg_1'', msg_role = Assistant,
          msg_content = JStr (errorPrefix @ ustr ''Network Error''),
          msg_timestamp = ustr ''t1''\<rparr>,
         \<lparr>msg_id = ustr ''msg_2'', msg_role = User, msg_content = JStr (ustr ''again''),
          msg_timestamp = ustr ''t2''\<rparr>],
      isLoading = True, messageCounter = 3\<rparr>
     \<lparr>req_api_url = JStr [], req_api_key = JStr [], req_model = JStr [],
      req_messages = [(User, JStr (ustr ''Hello'')),
                      (Assistant, JStr (errorPrefix @ ustr ''Network Error'')),
                      (User, JStr (ustr ''again''))],
      req_temperature = JNum (Fin (7 / 10)), req_max_tokens = JNum (Fin 1000)\<rparr>"
  by (simp add: afterFailure_eq sendMessage_begin_def trim_def isWhiteSpace_def
      pushMessage_def buildRequest_def thenE_def defaultConfig_def ownLookup_def
      decimal.simps ustr_def)

subsection \<open>The content taken from a response\<close>

lemma getProp_arr_length:
  "getProp (JArr xs) (ustr ''length'') = Inr (JNum (Fin (of_nat (length xs))))"
  by simp

lemma extractContent_openai:
  assumes "getProp aiResponse (ustr ''choices'') = Inr (JArr (first # others))"
    and "getProp first (ustr ''message'') = Inr m"
    and "getProp m (ustr ''content'') = Inr c"
  shows "extractContent eng aiResponse = Inr c"
  using assms
  by (simp add: extractContent_def thenE_def getProp_first getProp_arr_length
      del: getProp.simps)

lemma extractContent_content:
  assumes "getProp aiResponse (ustr ''choices'') = Inr choices"
    and "\<not> truthy choices \<or> choices = JArr []"
    and "getProp aiResponse (ustr ''content'') = Inr c"
  shows "extractContent eng aiResponse = Inr (if truthy c then c else JStr [])"
  using assms by (auto simp: extractContent_def thenE_def)

lemma extractContent_no_shape:
  assumes "ownLookup kvs (ustr ''choices'') = None" and "ownLookup kvs (ustr ''content'') = None"
  shows "extractContent eng (JObj kvs) = Inr (JStr [])"
  using assms by (simp add: extractContent_def thenE_def)

lemma extractContent_iflow: "extractContent eng (iflowEnvelope s m b) = Inr (JStr [])"
  unfolding iflowEnvelope_def
  by (rule extractContent_no_shape) (simp_all add: ownLookup_def ustr_def)

subsection \<open>saveConfig\<close>

lemma config_saveConfig:
  "config (fst (saveConfig newConfig out st)) = JObj (spread (config st) @ spread newConfig)"
  by (simp add: saveConfig_def saveConfig_begin_def saveConfig_resume_def Let_def
      split: outcome.split)

section \<open>The claims\<close>

subsection \<open>C1: a failed call\<close>

text \<open>
  C1, as the specification states it: after a failed call the conversation holds no new
  assistant entry. In the store a first message \<^verbatim>\<open>Hello\<close> whose call is rejected with
  status 401 leaves two messages, the second one an assistant message made of the error
  text.
\<close>

theorem C1_counterexample:
  "chatHistory (fst (sendMessage sampleEngine defaultConfig (ustr ''Hello'') (ustr ''t0'')
      (Rejected (ustr ''Request failed with status code 401'')) (ustr ''t1'') initialChat))
   = [\<lparr>msg_id = ustr ''msg_0'', msg_role = User, msg_content = JStr (ustr ''Hello''),
        msg_timestamp = ustr ''t0''\<rparr>,
      \<lparr>msg_id = ustr ''msg_1'', msg_role = Assistant,
        msg_content = JStr (errorPrefix @ ustr ''Request failed with status code 401''),
        msg_timestamp = ustr ''t1''\<rparr>]"
  by (simp add: sendMessage_def sendMessage_begin_def trim_def isWhiteSpace_def
      pushMessage_def initialChat_def buildRequest_def thenE_def defaultConfig_def
      ownLookup_def chatHistory_resume replyContent_def decimal.simps ustr_def)

text \<open>
  C1, amended: when the call fails (status outside 2xx, transport error or timeout), the
  \<^verbatim>\<open>catch\<close> block appends exactly one message of role \<^verbatim>\<open>assistant\<close> whose content is
  the prefix of line 78 followed by the message of the error; this message is how the
  failure is shown, and it is part of the \<^verbatim>\<open>messages\<close> of the next request made on
  that history.
\<close>

theorem C1_failed_call_appends_error_message:
  "sendMessage_resume eng (Rejected m) now st =
     (st\<lparr>chatHistory := chatHistory st @
            [\<lparr>msg_id = ustr ''msg_'' @ decimal (messageCounter st), msg_role = Assistant,
              msg_content = JStr (errorPrefix @ m), msg_timestamp = now\<rparr>],
         messageCounter := messageCounter st + 1, isLoading := False\<rparr>, JUndefined)
   \<and> (sendMessage_begin eng cfg content t t' (fst (sendMessage_resume eng (Rejected m) now st))
         = Awaiting st2 req
       \<longrightarrow> (Assistant, JStr (errorPrefix @ m)) \<in> set (req_messages req))"
proof
  show "sendMessage_resume eng (Rejected m) now st =
     (st\<lparr>chatHistory := chatHistory st @
            [\<lparr>msg_id = ustr ''msg_'' @ decimal (messageCounter st), msg_role = Assistant,
              msg_content = JStr (errorPrefix @ m), msg_timestamp = now\<rparr>],
         messageCounter := messageCounter st + 1, isLoading := False\<rparr>, JUndefined)"
    by (simp add: resume_eq replyContent_def finallyBlock_def pushMessage_def)
next
  show "sendMessage_begin eng cfg content t t' (fst (sendMessage_resume eng (Rejected m) now st))
         = Awaiting st2 req
       \<longrightarrow> (Assistant, JStr (errorPrefix @ m)) \<in> set (req_messages req)"
  proof
    assume a: "sendMessage_begin eng cfg content t t'
                 (fst (sendMessage_resume eng (Rejected m) now st)) = Awaiting st2 req"
    have "req_messages req =
            map (\<lambda>m. (msg_role m, msg_content m))
              (chatHistory (fst (sendMessage_resume eng (Rejected m) now st)))
            @ [(User, JStr (trim content))]"
      by (rule begin_awaiting(1) [OF a])
    then show "(Assistant, JStr (errorPrefix @ m)) \<in> set (req_messages req)"
      by (simp add: chatHistory_resume replyContent_def)
  qed
qed

theorem C1_failed_call_appends_error_message_witness:
  "sendMessage_begin sampleEngine defaultConfig (ustr ''again'') (ustr ''t2'') (ustr ''t3'')
     (fst (sendMessage_resume sampleEngine (Rejected (ustr ''Network Error'')) (ustr ''t1'')
        helloSent))
   = Awaiting
     \<lparr>chatHistory =
        [\<lparr>msg_id = ustr ''msg_0'', msg_role = User, msg_content = JStr (ustr ''Hello''),
          msg_timestamp = ustr ''t0''\<rparr>,
         \<lparr>msg_id = ustr ''msg_1'', msg_role = Assistant,
          msg_content = JStr (errorPrefix @ ustr ''Network Error''),
          msg_timestamp = ustr ''t1''\<rparr>,
         \<lparr>msg_id = ustr ''msg_2'', msg_role = User, msg_content = JStr (ustr ''again''),
          msg_timestamp = ustr ''t2''\<rparr>],
      isLoading = True, messageCounter = 3\<rparr>
     \<lparr>req_api_url = JStr [], req_api_key = JStr [], req_model = JStr [],
      req_messages = [(User, JStr (ustr ''Hello'')),
                      (Assistant, JStr (errorPrefix @ ustr ''Network Error'')),
                      (User, JStr (ustr ''again''))],
      req_temperature = JNum (Fin (7 / 10)), req_max_tokens = JNum (Fin 1000)\<rparr>
   \<and> (Assistant, JStr (errorPrefix @ ustr ''Network Error''))
       \<in> set [(User, JStr (ustr ''Hello'')),
               (Assistant, JStr (errorPrefix @ ustr ''Network Error'')),
               (User, JStr (ustr ''again''))]"
  using C1_failed_call_appends_error_message [of sampleEngine "ustr ''Network Error''"
      "ustr ''t1''" helloSent defaultConfig "ustr ''again''" "ustr ''t2''" "ustr ''t3''"]
    afterFailure_next
  by (simp add: afterFailure_def)

subsection \<open>C2: the shapes of a reply\<close>

text \<open>
  C2, as the specification states it: a body in the iflow envelope
  \<^verbatim>\<open>{status, msg, body}\<close> gives the assistant text of the envelope, and the envelope is
  tried before the other shapes. The store never reads \<^verbatim>\<open>status\<close>, \<^verbatim>\<open>msg\<close> or
  \<^verbatim>\<open>body\<close>: an envelope whose body holds a reply gives the empty string, and a body
  that has the fields of the envelope and a \<^verbatim>\<open>content\<close> field gives the \<^verbatim>\<open>content\<close>
  field.
\<close>

theorem C2_counterexample:
  "extractContent sampleEngine
     (iflowEnvelope (JNum (Fin 0)) (JStr (ustr ''success'')) (openaiBody (ustr ''Hi there!'')))
     = Inr (JStr [])
   \<and> extractContent sampleEngine
       (JObj [(ustr ''status'', JNum (Fin 0)), (ustr ''msg'', JStr (ustr ''success'')),
              (ustr ''body'', JStr (ustr ''text of the envelope'')),
              (ustr ''content'', JStr (ustr ''text of the content field''))])
     = Inr (JStr (ustr ''text of the content field''))"
  by (simp add: extractContent_iflow)
     (simp add: extractContent_def thenE_def ownLookup_def ustr_def)

text \<open>
  C2, amended: for a body in the OpenAI-compatible shape (\<^verbatim>\<open>choices\<close> an array whose
  first element has \<^verbatim>\<open>message.content\<close>) the content taken is exactly
  \<^verbatim>\<open>choices[0].message.content\<close>, whatever else the body holds; for an object with no
  \<^verbatim>\<open>choices\<close> and a non-empty string \<^verbatim>\<open>content\<close> it is exactly that string. The
  OpenAI-compatible shape is tried first, the simplified one second.
\<close>

theorem C2_recognized_shapes:
  "(getProp aiResponse (ustr ''choices'') = Inr (JArr (first # others)) \<longrightarrow>
      getProp first (ustr ''message'') = Inr m \<longrightarrow> getProp m (ustr ''content'') = Inr c \<longrightarrow>
      extractContent eng aiResponse = Inr c)
   \<and> (ownLookup kvs (ustr ''choices'') = None \<longrightarrow>
        ownLookup kvs (ustr ''content'') = Some (JStr t) \<longrightarrow> t \<noteq> [] \<longrightarrow>
        extractContent eng (JObj kvs) = Inr (JStr t))"
proof (intro conjI impI)
  assume "getProp aiResponse (ustr ''choices'') = Inr (JArr (first # others))"
    "getProp first (ustr ''message'') = Inr m" "getProp m (ustr ''content'') = Inr c"
  then show "extractContent eng aiResponse = Inr c"
    by (rule extractContent_openai)
next
  assume a: "ownLookup kvs (ustr ''choices'') = None"
    "ownLookup kvs (ustr ''content'') = Some (JStr t)" "t \<noteq> []"
  have "extractContent eng (JObj kvs) = Inr (if truthy (JStr t) then JStr t else JStr [])"
    by (rule extractContent_content [where choices = JUndefined]) (simp_all add: a)
  with a(3) show "extractContent eng (JObj kvs) = Inr (JStr t)"
    by simp
qed

theorem C2_recognized_shapes_witness:
  "getProp bothShapes (ustr ''choices'') =
     Inr (JArr [JObj [(ustr ''message'', JObj [(ustr ''content'', JStr (ustr ''from choices''))])]])
   \<and> getProp (JObj [(ustr ''message'', JObj [(ustr ''content'', JStr (ustr ''from choices''))])])
       (ustr ''message'') = Inr (JObj [(ustr ''content'', JStr (ustr ''from choices''))])
   \<and> getProp (JObj [(ustr ''content'', JStr (ustr ''from choices''))]) (ustr ''content'')
       = Inr (JStr (ustr ''from choices''))
   \<and> extractContent sampleEngine bothShapes = Inr (JStr (ustr ''from choices''))
   \<and> ownLookup [(ustr ''content'', JStr (ustr ''Hi there!''))] (ustr ''choices'') = None
   \<and> ownLookup [(ustr ''content'', JStr (ustr ''Hi there!''))] (ustr ''content'')
       = Some (JStr (ustr ''Hi there!''))
   \<and> ustr ''Hi there!'' \<noteq> []
   \<and> extractContent sampleEngine (JObj [(ustr ''content'', JStr (ustr ''Hi there!''))])
       = Inr (JStr (ustr ''Hi there!''))"
proof -
  have 1: "getProp bothShapes (ustr ''choices'') =
     Inr (JArr [JObj [(ustr ''message'', JObj [(ustr ''content'', JStr (ustr ''from choices''))])]])"
    by (simp add: bothShapes_def ownLookup_def ustr_def)
  have 2: "getProp (JObj [(ustr ''message'', JObj [(ustr ''content'', JStr (ustr ''from choices''))])])
       (ustr ''message'') = Inr (JObj [(ustr ''content'', JStr (ustr ''from choices''))])"
    by (simp add: ownLookup_def)
  have 3: "getProp (JObj [(ustr ''content'', JStr (ustr ''from choices''))]) (ustr ''content'')
       = Inr (JStr (ustr ''from choices''))"
    by (simp add: ownLookup_def)
  have 4: "ownLookup [(ustr ''content'', JStr (ustr ''Hi there!''))] (ustr ''choices'') = None"
    by (simp add: ownLookup_def ustr_def)
  have 5: "ownLookup [(ustr ''content'', JStr (ustr ''Hi there!''))] (ustr ''content'')
       = Some (JStr (ustr ''Hi there!''))"
    by (simp add: ownLookup_def)
  have 6: "ustr ''Hi there!'' \<noteq> []"
    by (rule ustr_nonempty)
  show ?thesis
    using C2_recognized_shapes [of bothShapes
        "JObj [(ustr ''message'', JObj [(ustr ''content'', JStr (ustr ''from choices''))])]" "[]"
        "JObj [(ustr ''content'', JStr (ustr ''from choices''))]" "JStr (ustr ''from choices'')"
        sampleEngine "[(ustr ''content'', JStr (ustr ''Hi there!''))]" "ustr ''Hi there!''"]
      1 2 3 4 5 6
    by simp
qed

subsection \<open>C3: a body of no known shape\<close>

text \<open>
  C3, as the specification states it: a body of none of the shapes, such as
  \<^verbatim>\<open>{"foo": "bar"}\<close>, gives a failure of kind UnrecognizedFormat with a non-empty
  snippet of the body. The store raises nothing for it: the content is the empty string
  of line 50, and an assistant message with that content is appended.
\<close>

theorem C3_counterexample:
  "extractContent sampleEngine (JObj [(ustr ''foo'', JStr (ustr ''bar''))]) = Inr (JStr [])
   \<and> chatHistory (fst (sendMessage sampleEngine defaultConfig (ustr ''Hello'') (ustr ''t0'')
        (Resolved (JObj [(ustr ''foo'', JStr (ustr ''bar''))])) (ustr ''t1'') initialChat))
     = [\<lparr>msg_id = ustr ''msg_0'', msg_role = User, msg_content = JStr (ustr ''Hello''),
          msg_timestamp = ustr ''t0''\<rparr>,
        \<lparr>msg_id = ustr ''msg_1'', msg_role = Assistant, msg_content = JStr [],
          msg_timestamp = ustr ''t1''\<rparr>]"
  by (simp add: sendMessage_def sendMessage_begin_def trim_def isWhiteSpace_def
      pushMessage_def initialChat_def buildRequest_def thenE_def defaultConfig_def
      ownLookup_def chatHistory_resume replyContent_def extractContent_def decimal.simps
      ustr_def)

text \<open>
  C3, amended: for a body that is an object with neither a \<^verbatim>\<open>choices\<close> nor a
  \<^verbatim>\<open>content\<close> property, no failure is produced and no part of the body is kept: the
  content taken is the empty string, and the send appends an assistant message with
  empty content and clears the loading flag.
\<close>

theorem C3_unrecognized_body_gives_empty_reply:
  assumes "ownLookup kvs (ustr ''choices'') = None" and "ownLookup kvs (ustr ''content'') = None"
  shows "extractContent eng (JObj kvs) = Inr (JStr [])
         \<and> sendMessage_resume eng (Resolved (JObj kvs)) now st =
             (finallyBlock (pushMessage Assistant (JStr []) now st), JUndefined)"
  using extractContent_no_shape [OF assms, of eng]
  by (simp add: resume_eq replyContent_def)

theorem C3_unrecognized_body_gives_empty_reply_witness:
  "ownLookup [(ustr ''foo'', JStr (ustr ''bar''))] (ustr ''choices'') = None
   \<and> ownLookup [(ustr ''foo'', JStr (ustr ''bar''))] (ustr ''content'') = None
   \<and> extractContent sampleEngine (JObj [(ustr ''foo'', JStr (ustr ''bar''))]) = Inr (JStr [])
   \<and> sendMessage_resume sampleEngine (Resolved (JObj [(ustr ''foo'', JStr (ustr ''bar''))]))
        (ustr ''t1'') helloSent =
       (finallyBlock (pushMessage Assistant (JStr []) (ustr ''t1'') helloSent), JUndefined)"
proof -
  have 1: "ownLookup [(ustr ''foo'', JStr (ustr ''bar''))] (ustr ''choices'') = None"
    by (simp add: ownLookup_def ustr_def)
  have 2: "ownLookup [(ustr ''foo'', JStr (ustr ''bar''))] (ustr ''content'') = None"
    by (simp add: ownLookup_def ustr_def)
  from C3_unrecognized_body_gives_empty_reply [OF 1 2, of sampleEngine "ustr ''t1''" helloSent]
    1 2 show ?thesis
    by simp
qed

subsection \<open>C4: an envelope that reports an expired token\<close>

text \<open>
  C4, as the specification states it: an iflow envelope whose \<^verbatim>\<open>msg\<close> holds the text
  of an expired token gives a failure of kind AuthExpired. The store gives no failure for
  the envelope with the message \<^verbatim>\<open>Your API Token has expired\<close>: the content is the empty
  string, appended as an assistant message.
\<close>

theorem C4_counterexample:
  "extractContent sampleEngine
     (iflowEnvelope (JStr (ustr ''434'')) (JStr (ustr ''Your API Token has expired'')) JNull)
     = Inr (JStr [])
   \<and> chatHistory (fst (sendMessage_resume sampleEngine
        (Resolved (iflowEnvelope (JStr (ustr ''434''))
           (JStr (ustr ''Your API Token has expired'')) JNull)) (ustr ''t1'') helloSent))
     = [\<lparr>msg_id = ustr ''msg_0'', msg_role = User, msg_content = JStr (ustr ''Hello''),
          msg_timestamp = ustr ''t0''\<rparr>,
        \<lparr>msg_id = ustr ''msg_1'', msg_role = Assistant, msg_content = JStr [],
          msg_timestamp = ustr ''t1''\<rparr>]"
  by (simp add: chatHistory_resume replyContent_def extractContent_iflow helloSent_eq
      decimal.simps ustr_def)

text \<open>
  C4, amended: the store does not inspect an iflow envelope. Whatever its \<^verbatim>\<open>status\<close>,
  \<^verbatim>\<open>msg\<close> and \<^verbatim>\<open>body\<close> are, no failure is produced, the content taken is the empty
  string, and the send appends an assistant message with empty content.
\<close>

theorem C4_envelope_is_not_inspected:
  "extractContent eng (iflowEnvelope s m b) = Inr (JStr [])
   \<and> sendMessage_resume eng (Resolved (iflowEnvelope s m b)) now st =
       (finallyBlock (pushMessage Assistant (JStr []) now st), JUndefined)"
  by (simp add: resume_eq replyContent_def extractContent_iflow)

subsection \<open>C5: a send while another is in flight\<close>

text \<open>
  C5, as the specification states it: a send on a conversation that is sending returns
  \<^verbatim>\<open>Failure{kind: Busy}\<close> at once, is not queued, and leaves the history as it is.
  The store has no result type. On the store with \<^verbatim>\<open>Hello\<close> in flight the second send
  is fulfilled with \<^verbatim>\<open>undefined\<close>, which is no failure value and is the value a successful
  send is fulfilled with.
\<close>

theorem C5_counterexample:
  "sendMessage_begin sampleEngine defaultConfig (ustr ''again'') (ustr ''t2'') (ustr ''t3'')
     helloSent = Settled helloSent JUndefined
   \<and> \<not> spec_isFailure (ustr ''Busy'') JUndefined
   \<and> snd (sendMessage sampleEngine defaultConfig (ustr ''Hello'') (ustr ''t0'')
            (Resolved (openaiBody (ustr ''Hi there!''))) (ustr ''t1'') initialChat) = JUndefined"
  by (simp add: sendMessage_begin_def helloSent_loading spec_isFailure_def sendMessage_value)

text \<open>
  C5, amended: while \<^verbatim>\<open>isLoading\<close> is set, a further \<^verbatim>\<open>sendMessage\<close> returns at once
  (line 17) with the promise fulfilled with \<^verbatim>\<open>undefined\<close>; no request is issued and the
  whole store (history, counter and loading flag) is left as it is.
\<close>

theorem C5_busy_send_is_ignored:
  "isLoading st \<Longrightarrow> sendMessage_begin eng cfg content now now' st = Settled st JUndefined"
  by (simp add: sendMessage_begin_def)

theorem C5_busy_send_is_ignored_witness:
  "isLoading helloSent \<and>
   sendMessage_begin sampleEngine defaultConfig (ustr ''again'') (ustr ''t2'') (ustr ''t3'')
     helloSent = Settled helloSent JUndefined"
  using C5_busy_send_is_ignored [OF helloSent_loading, of sampleEngine defaultConfig
      "ustr ''again''" "ustr ''t2''" "ustr ''t3''"]
  by (simp add: helloSent_loading)

subsection \<open>C6: a reply that arrives after clearHistory\<close>

text \<open>
  C6, as the specification states it: a reply of a call that was in flight before the
  clear never appears in the emptied list. The store has no generation counter: with
  \<^verbatim>\<open>Hello\<close> in flight, \<^verbatim>\<open>clearHistory\<close> and then the reply leave the reply as the only
  message of the new list.
\<close>

theorem C6_counterexample:
  "chatHistory (fst (sendMessage_resume sampleEngine (Resolved (openaiBody (ustr ''Hi there!'')))
      (ustr ''t1'') (clearHistory helloSent)))
   = [\<lparr>msg_id = ustr ''msg_1'', msg_role = Assistant, msg_content = JStr (ustr ''Hi there!''),
        msg_timestamp = ustr ''t1''\<rparr>]"
  by (simp add: chatHistory_resume clearHistory_def helloSent_eq replyContent_def
      extractContent_def openaiBody_def thenE_def ownLookup_def decimal.simps ustr_def)

text \<open>
  C6, amended: \<^verbatim>\<open>clearHistory\<close> (and \<^verbatim>\<open>newConversation\<close>) empties the list at once and
  changes nothing else, neither the loading flag nor the counter; the reply, or the error
  text, of a call that was in flight is appended to the new list when it arrives, which
  then holds that one assistant message.
\<close>

theorem C6_late_reply_lands_in_cleared_history:
  "chatHistory (clearHistory st) = []
   \<and> isLoading (clearHistory st) = isLoading st
   \<and> messageCounter (clearHistory st) = messageCounter st
   \<and> newConversation st = clearHistory st
   \<and> chatHistory (fst (sendMessage_resume eng out now (clearHistory st))) =
       [\<lparr>msg_id = ustr ''msg_'' @ decimal (messageCounter st), msg_role = Assistant,
         msg_content = replyContent eng out, msg_timestamp = now\<rparr>]"
  by (simp add: chatHistory_resume clearHistory_def newConversation_def)

subsection \<open>C7: the loading flag is always cleared\<close>

text \<open>
  C7: whatever the outcome of the call (a reply, a body the store cannot read, a
  rejection by status, transport or timeout), and whatever happened to the store while
  the call was in flight, \<^verbatim>\<open>sendMessage\<close> ends with \<^verbatim>\<open>isLoading\<close> cleared, in the
  \<^verbatim>\<open>finally\<close> block, before its promise is fulfilled. The same holds when the run ends
  without a request. So the next send with a non-blank text is not ignored.
\<close>

theorem C7_send_returns_to_idle:
  "\<not> isLoading (fst (sendMessage_resume eng out now st))
   \<and> (\<not> isLoading st0 \<longrightarrow> sendMessage_begin eng cfg content t t' st0 = Settled st1 v
        \<longrightarrow> \<not> isLoading st1)
   \<and> (trim next \<noteq> [] \<longrightarrow>
        sendMessage_begin eng cfg' next t2 t3 (fst (sendMessage_resume eng out now st))
          \<noteq> Settled (fst (sendMessage_resume eng out now st)) JUndefined)"
  using resume_idle [of eng out now st] begin_settled_idle [of st0 eng cfg content t t' st1 v]
    begin_not_ignored [of "next" "fst (sendMessage_resume eng out now st)" eng cfg' t2 t3]
  by blast

theorem C7_send_returns_to_idle_witness:
  "\<not> isLoading (fst (sendMessage_resume sampleEngine
        (Rejected (ustr ''timeout of 30000ms exceeded'')) (ustr ''t1'') helloSent))
   \<and> \<not> isLoading initialChat
   \<and> sendMessage_begin sampleEngine defaultConfig (ustr ''  '') (ustr ''t0'') (ustr ''t1'')
        initialChat = Settled initialChat JUndefined
   \<and> trim (ustr ''again'') \<noteq> []
   \<and> sendMessage_begin sampleEngine defaultConfig (ustr ''again'') (ustr ''t2'') (ustr ''t3'')
        (fst (sendMessage_resume sampleEngine
          (Rejected (ustr ''timeout of 30000ms exceeded'')) (ustr ''t1'') helloSent))
       \<noteq> Settled (fst (sendMessage_resume sampleEngine
            (Rejected (ustr ''timeout of 30000ms exceeded'')) (ustr ''t1'') helloSent)) JUndefined"
proof -
  have b: "sendMessage_begin sampleEngine defaultConfig (ustr ''  '') (ustr ''t0'') (ustr ''t1'')
             initialChat = Settled initialChat JUndefined"
    by (simp add: sendMessage_begin_def trim_def isWhiteSpace_def ustr_def)
  have i: "\<not> isLoading initialChat" by (simp add: initialChat_def)
  have n: "trim (ustr ''again'') \<noteq> []" by (simp add: trim_again ustr_nonempty)
  show ?thesis
    using C7_send_returns_to_idle [of sampleEngine
        "Rejected (ustr ''timeout of 30000ms exceeded'')" "ustr ''t1''" helloSent initialChat
        defaultConfig "ustr ''  ''" "ustr ''t0''" "ustr ''t1''" initialChat JUndefined
        "ustr ''again''" defaultConfig "ustr ''t2''" "ustr ''t3''"] b i n
    by simp
qed

subsection \<open>C8: saving a configuration\<close>

text \<open>
  C8, as the specification states it: a record with an empty \<^verbatim>\<open>apiUrl\<close> or with
  \<^verbatim>\<open>temperature\<close> or \<^verbatim>\<open>maxTokens\<close> out of range is refused with a ValidationError
  and the stored configuration is unchanged. \<^verbatim>\<open>saveConfig\<close> checks nothing: such a
  record is stored, and with a server that accepts it the result is \<^verbatim>\<open>true\<close> and no
  error is set.
\<close>

theorem C8_counterexample:
  "snd (saveConfig badConfig (Resolved (JObj [])) initialConfig) = JBool True
   \<and> error (fst (saveConfig badConfig (Resolved (JObj [])) initialConfig)) = JNull
   \<and> getProp (config initialConfig) (ustr ''temperature'') = Inr (JNum (Fin (7 / 10)))
   \<and> getProp (config (fst (saveConfig badConfig (Resolved (JObj [])) initialConfig)))
        (ustr ''api_url'') = Inr (JStr [])
   \<and> getProp (config (fst (saveConfig badConfig (Resolved (JObj [])) initialConfig)))
        (ustr ''temperature'') = Inr (JNum (Fin 5))
   \<and> getProp (config (fst (saveConfig badConfig (Resolved (JObj [])) initialConfig)))
        (ustr ''max_tokens'') = Inr (JNum (Fin 0))"
  by (simp add: config_saveConfig)
     (simp add: saveConfig_def saveConfig_begin_def saveConfig_resume_def Let_def
      initialConfig_def defaultConfig_def badConfig_def ownLookup_def ustr_def)

text \<open>
  C8, amended: for every record passed to \<^verbatim>\<open>saveConfig\<close>, the store replaces its one
  configuration (there is no registry keyed by name) by the merge of the old
  configuration with the record, without validating any field. The result is
  \<^verbatim>\<open>true\<close> when the server call succeeds and \<^verbatim>\<open>false\<close>, with an error text, when it
  fails; the stored configuration is the merged one in both cases.
\<close>

theorem C8_saveConfig_stores_without_validation:
  "config (fst (saveConfig newConfig out st)) = JObj (spread (config st) @ spread newConfig)
   \<and> snd (saveConfig newConfig out st) =
       JBool (case out of Resolved response \<Rightarrow> True | Rejected m \<Rightarrow> False)
   \<and> error (fst (saveConfig newConfig out st)) =
       (case out of Resolved response \<Rightarrow> JNull | Rejected m \<Rightarrow> JStr (savePrefix @ m))
   \<and> loading (fst (saveConfig newConfig out st)) = False
   \<and> models (fst (saveConfig newConfig out st)) = models st"
  by (simp add: saveConfig_def saveConfig_begin_def saveConfig_resume_def Let_def
      split: outcome.split)

subsection \<open>C9: the user message carries the trimmed text\<close>

text \<open>
  C9: for a text whose trimmed form is not empty, sent while no call is in flight, the
  message appended to the history is a user message whose content is the trimmed text:
  the text without the white space before its first and after its last character that is
  not white space. Nothing follows it in the history when the step ends, unless the
  configuration is null or undefined and the \<^verbatim>\<open>catch\<close> block has added its message.
\<close>

theorem C9_user_message_is_trimmed:
  assumes "trim content \<noteq> []" and "\<not> isLoading st"
  shows "(\<exists>rest. chatHistory (storeOf (sendMessage_begin eng cfg content now now' st)) =
            chatHistory st @
              \<lparr>msg_id = ustr ''msg_'' @ decimal (messageCounter st), msg_role = User,
                msg_content = JStr (trim content), msg_timestamp = now\<rparr> # rest
            \<and> (cfg \<noteq> JUndefined \<longrightarrow> cfg \<noteq> JNull \<longrightarrow> rest = []))
         \<and> (\<exists>pre post. content = pre @ trim content @ post \<and>
               (\<forall>c\<in>set pre. isWhiteSpace c) \<and> (\<forall>c\<in>set post. isWhiteSpace c))
         \<and> \<not> isWhiteSpace (hd (trim content)) \<and> \<not> isWhiteSpace (last (trim content))"
  using begin_accepted_exact [OF assms] trim_split [of content] trim_ends [OF assms(1)]
  by blast

theorem C9_user_message_is_trimmed_witness:
  "trim ([32, 12288] @ ustr ''Hello'' @ [10, 9]) \<noteq> [] \<and> \<not> isLoading initialChat
   \<and> chatHistory (storeOf (sendMessage_begin sampleEngine defaultConfig
         ([32, 12288] @ ustr ''Hello'' @ [10, 9]) (ustr ''t0'') (ustr ''t1'') initialChat)) =
       [\<lparr>msg_id = ustr ''msg_0'', msg_role = User, msg_content = JStr (ustr ''Hello''),
         msg_timestamp = ustr ''t0''\<rparr>]
   \<and> \<not> isWhiteSpace (hd (ustr ''Hello'')) \<and> \<not> isWhiteSpace (last (ustr ''Hello''))"
proof -
  have n: "trim ([32, 12288] @ ustr ''Hello'' @ [10, 9]) \<noteq> []"
    by (simp only: trim_hello) (simp add: ustr_def)
  have i: "\<not> isLoading initialChat" by (simp add: initialChat_def)
  have h: "chatHistory (storeOf (sendMessage_begin sampleEngine defaultConfig
         ([32, 12288] @ ustr ''Hello'' @ [10, 9]) (ustr ''t0'') (ustr ''t1'') initialChat)) =
       [\<lparr>msg_id = ustr ''msg_0'', msg_role = User, msg_content = JStr (ustr ''Hello''),
         msg_timestamp = ustr ''t0''\<rparr>]"
    by (simp add: sendMessage_begin_def trim_def isWhiteSpace_def storeOf_def pushMessage_def
        initialChat_def buildRequest_def thenE_def defaultConfig_def ownLookup_def
        decimal_0 ustr_def)
  from C9_user_message_is_trimmed [OF n i, of sampleEngine defaultConfig "ustr ''t0''"
      "ustr ''t1''"]
  have "\<not> isWhiteSpace (hd (ustr ''Hello'')) \<and> \<not> isWhiteSpace (last (ustr ''Hello''))"
    by (simp only: trim_hello) simp
  with n i h show ?thesis by simp
qed

subsection \<open>C10: a partial update keeps the other fields\<close>

text \<open>
  C10: the configuration stored by \<^verbatim>\<open>saveConfig\<close> is the spread-merge of the old
  configuration with the update. A field the update does not have keeps its previous
  value, a field it has takes the value of the update; nothing is reset to a default.
\<close>

theorem C10_saveConfig_keeps_other_fields:
  "(ownProperty newConfig k = None \<longrightarrow>
      ownProperty (config (fst (saveConfig newConfig out st))) k = ownProperty (config st) k)
   \<and> (ownProperty newConfig k = Some v \<longrightarrow>
        ownProperty (config (fst (saveConfig newConfig out st))) k = Some v)
   \<and> (config st = JObj kvs \<longrightarrow> ownProperty newConfig k = None \<longrightarrow>
        getProp (config (fst (saveConfig newConfig out st))) k = getProp (config st) k)
   \<and> config (fst (saveConfig newConfig out st)) = JObj (spread (config st) @ spread newConfig)"
  by (simp add: config_saveConfig ownProperty_def ownLookup_append)

theorem C10_saveConfig_keeps_other_fields_witness:
  "ownProperty (JObj [(ustr ''model'', JStr (ustr ''gpt-3.5-turbo''))]) (ustr ''temperature'') = None
   \<and> ownProperty (config (fst (saveConfig (JObj [(ustr ''model'', JStr (ustr ''gpt-3.5-turbo''))])
          (Resolved (JObj [])) (initialConfig\<lparr>config := tunedConfig\<rparr>)))) (ustr ''temperature'')
       = Some (JNum (Fin (2 / 10)))
   \<and> ownProperty (JObj [(ustr ''model'', JStr (ustr ''gpt-3.5-turbo''))]) (ustr ''model'')
       = Some (JStr (ustr ''gpt-3.5-turbo''))
   \<and> ownProperty (config (fst (saveConfig (JObj [(ustr ''model'', JStr (ustr ''gpt-3.5-turbo''))])
          (Resolved (JObj [])) (initialConfig\<lparr>config := tunedConfig\<rparr>)))) (ustr ''model'')
       = Some (JStr (ustr ''gpt-3.5-turbo''))"
proof -
  have 1: "ownProperty (JObj [(ustr ''model'', JStr (ustr ''gpt-3.5-turbo''))])
             (ustr ''temperature'') = None"
    by (simp add: ownProperty_def ownLookup_def ustr_def)
  have 2: "ownProperty (JObj [(ustr ''model'', JStr (ustr ''gpt-3.5-turbo''))]) (ustr ''model'')
             = Some (JStr (ustr ''gpt-3.5-turbo''))"
    by (simp add: ownProperty_def ownLookup_def)
  have 3: "ownProperty (config (initialConfig\<lparr>config := tunedConfig\<rparr>)) (ustr ''temperature'')
             = Some (JNum (Fin (2 / 10)))"
    by (simp add: ownProperty_def ownLookup_def tunedConfig_def ustr_def)
  have a: "ownProperty (config (fst (saveConfig
               (JObj [(ustr ''model'', JStr (ustr ''gpt-3.5-turbo''))])
               (Resolved (JObj [])) (initialConfig\<lparr>config := tunedConfig\<rparr>)))) (ustr ''temperature'')
           = ownProperty (config (initialConfig\<lparr>config := tunedConfig\<rparr>)) (ustr ''temperature'')"
    using C10_saveConfig_keeps_other_fields
      [of "JObj [(ustr ''model'', JStr (ustr ''gpt-3.5-turbo''))]" "ustr ''temperature''"
        "Resolved (JObj [])" "initialConfig\<lparr>config := tunedConfig\<rparr>"] 1
    by blast
  have b: "ownProperty (config (fst (saveConfig
               (JObj [(ustr ''model'', JStr (ustr ''gpt-3.5-turbo''))])
               (Resolved (JObj [])) (initialConfig\<lparr>config := tunedConfig\<rparr>)))) (ustr ''model'')
           = Some (JStr (ustr ''gpt-3.5-turbo''))"
    using C10_saveConfig_keeps_other_fields
      [of "JObj [(ustr ''model'', JStr (ustr ''gpt-3.5-turbo''))]" "ustr ''model''"
        "Resolved (JObj [])" "initialConfig\<lparr>config := tunedConfig\<rparr>"
        "JStr (ustr ''gpt-3.5-turbo'')"] 2
    by blast
  show ?thesis
    by (intro conjI) (rule 1, rule trans [OF a 3], rule 2, rule b)
qed

end
